theory Spec2Isabelle
  imports Main "HOL-Library.Char_ord" "HOL-Library.List_Lexorder"
begin

section \<open>Python values\<close>

text \<open>
  \<^verbatim>\<open>recon_tool.py\<close> is dynamically typed: the attributes of the WHOIS client's answer
  may be absent, \<^verbatim>\<open>None\<close>, a string, a \<^verbatim>\<open>datetime\<close>, or a list, tuple or set
  of such values. The values the program handles are modelled by one datatype. A
  \<^verbatim>\<open>datetime\<close> carries the fields that \<^verbatim>\<open>strftime("%Y-%m-%d %H:%M:%S")\<close> reads.
  A set is given by its elements in iteration order, a dict by its items in insertion
  order. A \<open>char\<close> stands for a code point below 256.
\<close>

record datetime =
  dt_year :: nat
  dt_month :: nat
  dt_day :: nat
  dt_hour :: nat
  dt_minute :: nat
  dt_second :: nat

datatype pyval =
    PNone
  | PStr string
  | PDate datetime
  | PList "pyval list"
  | PTuple "pyval list"
  | PSet "pyval list"
  | PDict "(string \<times> pyval) list"

type_synonym dict = "(string \<times> pyval) list"

text \<open>
  The exceptions that leave a function of the program: the ones Python raises for an
  operation a value does not support, and an exception of a library call that no
  handler of the program catches (with its message).
\<close>

datatype py_error = AttributeError | TypeError | KeyError | Uncaught string

text \<open>Truth value testing: \<^verbatim>\<open>None\<close> and empty strings and containers are falsy.\<close>

fun py_truthy :: "pyval \<Rightarrow> bool" where
  "py_truthy PNone = False"
| "py_truthy (PStr s) = (s \<noteq> [])"
| "py_truthy (PDate t) = True"
| "py_truthy (PList xs) = (xs \<noteq> [])"
| "py_truthy (PTuple xs) = (xs \<noteq> [])"
| "py_truthy (PSet xs) = (xs \<noteq> [])"
| "py_truthy (PDict kvs) = (kvs \<noteq> [])"

text \<open>\<^verbatim>\<open>a or b\<close>.\<close>

definition py_or :: "pyval \<Rightarrow> pyval \<Rightarrow> pyval" where
  "py_or a b = (if py_truthy a then a else b)"

text \<open>
  \<^verbatim>\<open>str(x)\<close>: a string is itself and \<^verbatim>\<open>None\<close> is \<^verbatim>\<open>"None"\<close>. The text Python
  prints for any other object (the \<^verbatim>\<open>repr\<close> of a container, the ISO form of a
  \<^verbatim>\<open>datetime\<close>) is left open as the parameter \<open>ostr\<close>.
\<close>

fun py_str :: "(pyval \<Rightarrow> string) \<Rightarrow> pyval \<Rightarrow> string" where
  "py_str ostr (PStr s) = s"
| "py_str ostr PNone = ''None''"
| "py_str ostr v = ostr v"

text \<open>\<^verbatim>\<open>s.lower()\<close> on code points below 256: A-Z and the Latin-1 capitals.\<close>

definition py_lower_char :: "char \<Rightarrow> char" where
  "py_lower_char c =
     (let n = (of_char c :: nat)
      in if (65 \<le> n \<and> n \<le> 90) \<or> (192 \<le> n \<and> n \<le> 222 \<and> n \<noteq> 215)
         then char_of (n + 32) else c)"

definition py_lower :: "string \<Rightarrow> string" where
  "py_lower s = map py_lower_char s"

text \<open>\<^verbatim>\<open>s.startswith(p)\<close>.\<close>

definition py_startswith :: "string \<Rightarrow> string \<Rightarrow> bool" where
  "py_startswith s p = (take (length p) s = p)"

text \<open>\<^verbatim>\<open>s.strip(chars)\<close>: every leading and every trailing character of \<open>chars\<close> goes.\<close>

definition py_strip :: "string \<Rightarrow> string \<Rightarrow> string" where
  "py_strip chars s =
     rev (dropWhile (\<lambda>c. c \<in> set chars) (rev (dropWhile (\<lambda>c. c \<in> set chars) s)))"

text \<open>
  Iterating a value: the elements of a list, tuple or set, the characters of a string,
  the keys of a dict; \<^verbatim>\<open>None\<close> and a \<^verbatim>\<open>datetime\<close> are not iterable.
\<close>

fun py_iter :: "pyval \<Rightarrow> py_error + pyval list" where
  "py_iter (PList xs) = Inr xs"
| "py_iter (PTuple xs) = Inr xs"
| "py_iter (PSet xs) = Inr xs"
| "py_iter (PStr s) = Inr (map (\<lambda>c. PStr [c]) s)"
| "py_iter (PDict kvs) = Inr (map (\<lambda>kv. PStr (fst kv)) kvs)"
| "py_iter PNone = Inl TypeError"
| "py_iter (PDate t) = Inl TypeError"

text \<open>\<^verbatim>\<open>sep.join(v)\<close>: every item must be a string.\<close>

fun join_strs :: "string \<Rightarrow> string list \<Rightarrow> string" where
  "join_strs sep [] = []"
| "join_strs sep [x] = x"
| "join_strs sep (x # y # ys) = x @ sep @ join_strs sep (y # ys)"

fun the_strs :: "pyval list \<Rightarrow> py_error + string list" where
  "the_strs [] = Inr []"
| "the_strs (PStr s # vs) = (case the_strs vs of Inl e \<Rightarrow> Inl e | Inr ss \<Rightarrow> Inr (s # ss))"
| "the_strs (v # vs) = Inl TypeError"

definition py_join :: "string \<Rightarrow> pyval \<Rightarrow> py_error + string" where
  "py_join sep v =
     (case py_iter v of
        Inl e \<Rightarrow> Inl e
      | Inr items \<Rightarrow> (case the_strs items of Inl e \<Rightarrow> Inl e | Inr ss \<Rightarrow> Inr (join_strs sep ss)))"

text \<open>\<^verbatim>\<open>d.get(k)\<close>, \<^verbatim>\<open>d[k]\<close>, \<^verbatim>\<open>k in d\<close> and \<^verbatim>\<open>d[k] = v\<close> on a dict.\<close>

definition dict_get :: "dict \<Rightarrow> string \<Rightarrow> pyval" where
  "dict_get d k = (case map_of d k of None \<Rightarrow> PNone | Some v \<Rightarrow> v)"

definition dict_item :: "(string \<times> 'v) list \<Rightarrow> string \<Rightarrow> py_error + 'v" where
  "dict_item d k = (case map_of d k of None \<Rightarrow> Inl KeyError | Some v \<Rightarrow> Inr v)"

definition dict_has :: "(string \<times> 'v) list \<Rightarrow> string \<Rightarrow> bool" where
  "dict_has d k = (k \<in> set (map fst d))"

fun dict_set :: "(string \<times> 'v) list \<Rightarrow> string \<Rightarrow> 'v \<Rightarrow> (string \<times> 'v) list" where
  "dict_set [] k v = [(k, v)]"
| "dict_set ((k', v') # d) k v = (if k' = k then (k, v) # d else (k', v') # dict_set d k v)"

section \<open>The WHOIS normalizer\<close>

text \<open>\<^verbatim>\<open>safe_list\<close> (lines 27-32).\<close>

fun safe_list :: "pyval \<Rightarrow> pyval list" where
  "safe_list PNone = []"
| "safe_list (PList xs) = xs"
| "safe_list (PTuple xs) = xs"
| "safe_list (PSet xs) = xs"
| "safe_list x = [x]"

text \<open>
  The object \<^verbatim>\<open>whois.whois(domain)\<close> returns: each attribute the program reads is
  absent (\<open>None\<close>, so that \<^verbatim>\<open>getattr\<close> takes its default) or has a value. The call
  itself returns such an object or raises an exception, given by its message
  (\<^verbatim>\<open>str(e)\<close>).
\<close>

record whois_entry =
  we_registrar :: "pyval option"
  we_creation_date :: "pyval option"
  we_expiration_date :: "pyval option"
  we_updated_date :: "pyval option"
  we_name_servers :: "pyval option"
  we_status :: "pyval option"
  we_text :: "pyval option"

datatype whois_outcome = WhoisReturned whois_entry | WhoisRaised string

definition getattr :: "pyval option \<Rightarrow> pyval \<Rightarrow> pyval" where
  "getattr attr dflt = (case attr of None \<Rightarrow> dflt | Some v \<Rightarrow> v)"

text \<open>
  \<^verbatim>\<open>d.strftime("%Y-%m-%d %H:%M:%S")\<close>: zero-padded decimal fields, four digits for
  the year (a \<^verbatim>\<open>datetime\<close> has a year from 1 to 9999) and two for every other field, as
  the library documents the directives.
\<close>

definition digit_char :: "nat \<Rightarrow> char" where
  "digit_char n = char_of (48 + n mod 10)"

definition digits2 :: "nat \<Rightarrow> string" where
  "digits2 n = [digit_char (n div 10), digit_char n]"

definition digits4 :: "nat \<Rightarrow> string" where
  "digits4 n = [digit_char (n div 1000), digit_char (n div 100), digit_char (n div 10), digit_char n]"

definition strftime_ymd_hms :: "datetime \<Rightarrow> string" where
  "strftime_ymd_hms t =
     digits4 (dt_year t) @ ''-'' @ digits2 (dt_month t) @ ''-'' @ digits2 (dt_day t) @ '' '' @
     digits2 (dt_hour t) @ '':'' @ digits2 (dt_minute t) @ '':'' @ digits2 (dt_second t)"

text \<open>
  \<^verbatim>\<open>fmt_date\<close> (lines 41-50). The \<^verbatim>\<open>try\<close> around \<^verbatim>\<open>strftime\<close> catches the
  \<^verbatim>\<open>AttributeError\<close> of every value that is not a \<^verbatim>\<open>datetime\<close>.
\<close>

definition first_of_seq :: "pyval \<Rightarrow> pyval" where
  "first_of_seq d = (case d of PList (x # xs) \<Rightarrow> x | PTuple (x # xs) \<Rightarrow> x | _ \<Rightarrow> d)"

fun strftime_or_str :: "(pyval \<Rightarrow> string) \<Rightarrow> pyval \<Rightarrow> pyval" where
  "strftime_or_str ostr (PDate t) = PStr (strftime_ymd_hms t)"
| "strftime_or_str ostr c = PStr (py_str ostr c)"

definition fmt_date :: "(pyval \<Rightarrow> string) \<Rightarrow> pyval \<Rightarrow> pyval" where
  "fmt_date ostr d = (if \<not> py_truthy d then PNone else strftime_or_str ostr (first_of_seq d))"

text \<open>
  The \<^verbatim>\<open>name_servers\<close> expression of line 58:
  \<^verbatim>\<open>sorted({ns.strip(".") for ns in safe_list(...) if ns})\<close>. Only a string has
  \<^verbatim>\<open>strip\<close>; any other truthy entry raises \<^verbatim>\<open>AttributeError\<close>.
\<close>

fun strip_each :: "pyval list \<Rightarrow> py_error + string list" where
  "strip_each [] = Inr []"
| "strip_each (PStr s # vs) =
     (case strip_each vs of Inl e \<Rightarrow> Inl e | Inr ss \<Rightarrow> Inr (py_strip ''.'' s # ss))"
| "strip_each (v # vs) = Inl AttributeError"

definition name_servers_of :: "pyval \<Rightarrow> py_error + string list" where
  "name_servers_of v =
     (case strip_each (filter py_truthy (safe_list v)) of
        Inl e \<Rightarrow> Inl e
      | Inr ss \<Rightarrow> Inr (sort (remdups ss)))"

text \<open>\<^verbatim>\<open>whois_lookup\<close> (lines 34-62); the client is a parameter.\<close>

definition whois_lookup :: "(pyval \<Rightarrow> string) \<Rightarrow> (string \<Rightarrow> whois_outcome) \<Rightarrow> string \<Rightarrow> py_error + dict" where
  "whois_lookup ostr client domain =
     (case client domain of
        WhoisRaised msg \<Rightarrow> Inr [(''error'', PStr (''WHOIS failed: '' @ msg))]
      | WhoisReturned w \<Rightarrow>
          (case name_servers_of (getattr (we_name_servers w) (PList [])) of
             Inl e \<Rightarrow> Inl e
           | Inr ns \<Rightarrow>
               Inr [(''domain'', PStr domain),
                    (''registrar'', getattr (we_registrar w) PNone),
                    (''creation_date'', fmt_date ostr (getattr (we_creation_date w) PNone)),
                    (''expiration_date'', fmt_date ostr (getattr (we_expiration_date w) PNone)),
                    (''updated_date'', fmt_date ostr (getattr (we_updated_date w) PNone)),
                    (''name_servers'', PList (map PStr ns)),
                    (''status'', PList (safe_list (getattr (we_status w) (PList [])))),
                    (''raw'', PStr (take 2000 (py_str ostr (getattr (we_text w) (PStr [])))))]))"

section \<open>The DNS gatherer\<close>

text \<open>
  What one call \<^verbatim>\<open>dns.resolver.resolve(domain, rtype)\<close> does: it returns answers
  (given by their \<^verbatim>\<open>to_text()\<close>), or raises \<^verbatim>\<open>NXDOMAIN\<close>, \<^verbatim>\<open>NoAnswer\<close>, another
  \<^verbatim>\<open>DNSException\<close>, or an exception outside that hierarchy (each given by its message).
  The resolver is a parameter; it reads and changes a state of its own (the network),
  so that the calls of one run and their order can be told apart.
\<close>

datatype resolve_outcome =
    Answers "string list"
  | NXDOMAIN
  | NoAnswer
  | DNSException string
  | OtherException string

type_synonym 's resolver = "string \<Rightarrow> string \<Rightarrow> 's \<Rightarrow> resolve_outcome \<times> 's"

text \<open>
  \<^verbatim>\<open>dns_query\<close> (lines 64-73). The handlers name \<^verbatim>\<open>NXDOMAIN\<close>, \<^verbatim>\<open>NoAnswer\<close> and
  \<^verbatim>\<open>DNSException\<close>; any other exception is not caught.
\<close>

fun dns_result :: "resolve_outcome \<Rightarrow> py_error + string list" where
  "dns_result (Answers texts) = Inr texts"
| "dns_result NXDOMAIN = Inr [''NXDOMAIN'']"
| "dns_result NoAnswer = Inr []"
| "dns_result (DNSException msg) = Inr [''DNS error: '' @ msg]"
| "dns_result (OtherException msg) = Inl (Uncaught msg)"

definition dns_query :: "'s resolver \<Rightarrow> string \<Rightarrow> string \<Rightarrow> 's \<Rightarrow> (py_error + string list) \<times> 's" where
  "dns_query resolve domain rtype s =
     (case resolve domain rtype s of (outcome, s') \<Rightarrow> (dns_result outcome, s'))"

text \<open>
  \<^verbatim>\<open>gather_dns\<close> (lines 75-85): the loop over the six base types, then SPF from the
  TXT values and DMARC from one more query.
\<close>

type_synonym dns_records = "(string \<times> string list) list"

definition base_types :: "string list" where
  "base_types = [''A'', ''AAAA'', ''MX'', ''TXT'', ''NS'', ''CNAME'']"

fun query_types :: "'s resolver \<Rightarrow> string \<Rightarrow> string list \<Rightarrow> dns_records \<Rightarrow> 's \<Rightarrow> (py_error + dns_records) \<times> 's" where
  "query_types resolve domain [] records s = (Inr records, s)"
| "query_types resolve domain (rt # rts) records s =
     (case dns_query resolve domain rt s of
        (Inl e, s') \<Rightarrow> (Inl e, s')
      | (Inr vals, s') \<Rightarrow> query_types resolve domain rts (dict_set records rt vals) s')"

definition is_spf :: "string \<Rightarrow> bool" where
  "is_spf t = py_startswith (py_lower t) ''v=spf1''"

definition is_dmarc :: "string \<Rightarrow> bool" where
  "is_dmarc t = py_startswith (py_lower t) ''v=dmarc1''"

definition gather_dns :: "'s resolver \<Rightarrow> string \<Rightarrow> 's \<Rightarrow> (py_error + dns_records) \<times> 's" where
  "gather_dns resolve domain s =
     (case query_types resolve domain base_types [] s of
        (Inl e, s1) \<Rightarrow> (Inl e, s1)
      | (Inr records, s1) \<Rightarrow>
          (case dict_item records ''TXT'' of
             Inl e \<Rightarrow> (Inl e, s1)
           | Inr txt \<Rightarrow>
               (case dns_query resolve (''_dmarc.'' @ domain) ''TXT'' s1 of
                  (Inl e, s2) \<Rightarrow> (Inl e, s2)
                | (Inr dmarc, s2) \<Rightarrow>
                    (Inr (dict_set (dict_set records ''SPF'' (filter is_spf txt))
                            ''DMARC'' (filter is_dmarc dmarc)), s2))))"

text \<open>A resolver that also keeps the list of the calls made to it.\<close>

definition logged :: "'s resolver \<Rightarrow> ('s \<times> (string \<times> string) list) resolver" where
  "logged resolve domain rtype sl =
     (case resolve domain rtype (fst sl) of
        (outcome, s') \<Rightarrow> (outcome, (s', snd sl @ [(domain, rtype)])))"

section \<open>The reporter\<close>

text \<open>
  The program prints through \<^verbatim>\<open>rich\<close>. What is handed to \<^verbatim>\<open>console.print\<close> is
  recorded as it is built (a panel with its text, title and border style, a table with
  its title, column headers and rows, or a line of text); how \<^verbatim>\<open>rich\<close> renders it is
  not part of the program.
\<close>

datatype out_item =
    Panel string string string
  | Table string "string list" "(string \<times> pyval) list"
  | Line string

definition dash_if_empty :: "string \<Rightarrow> string" where
  "dash_if_empty s = (if s = [] then ''-'' else s)"

text \<open>\<^verbatim>\<open>print_whois\<close> (lines 87-104).\<close>

definition print_whois :: "(pyval \<Rightarrow> string) \<Rightarrow> dict \<Rightarrow> out_item list \<Rightarrow> py_error + out_item list" where
  "print_whois ostr w console =
     (if dict_has w ''error''
      then Inr (console @
             [Panel (''[red]'' @ py_str ostr (dict_get w ''error'') @ ''[/red]'') ''WHOIS'' ''red''])
      else
        (case dict_item w ''domain'' of
           Inl e \<Rightarrow> Inl e
         | Inr dname \<Rightarrow>
             (case py_join '', '' (py_or (dict_get w ''name_servers'') (PList [])) of
                Inl e \<Rightarrow> Inl e
              | Inr ns \<Rightarrow>
                  (case py_join '', '' (py_or (dict_get w ''status'') (PList [])) of
                     Inl e \<Rightarrow> Inl e
                   | Inr st \<Rightarrow>
                       Inr (console @
                         [Table (''WHOIS: '' @ py_str ostr dname) [''Field'', ''Value'']
                            [(''Registrar'', py_or (dict_get w ''registrar'') (PStr ''-'')),
                             (''Created'', py_or (dict_get w ''creation_date'') (PStr ''-'')),
                             (''Updated'', py_or (dict_get w ''updated_date'') (PStr ''-'')),
                             (''Expires'', py_or (dict_get w ''expiration_date'') (PStr ''-'')),
                             (''Name Servers'', PStr (dash_if_empty ns)),
                             (''Status'', PStr (dash_if_empty st))]])))))"

text \<open>\<^verbatim>\<open>print_dns\<close> (lines 106-126).\<close>

definition dns_row :: "string \<times> string list \<Rightarrow> string \<times> pyval" where
  "dns_row kv = (fst kv, PStr (if snd kv \<noteq> [] then join_strs '', '' (snd kv) else ''-''))"

definition hint_panel :: "dns_records \<Rightarrow> string \<Rightarrow> string \<Rightarrow> string \<Rightarrow> out_item" where
  "hint_panel d key title missing =
     (case map_of d key of
        Some (v # vs) \<Rightarrow> Panel (join_strs [CHR 0x0A] (v # vs)) title ''green''
      | _ \<Rightarrow> Panel missing title ''yellow'')"

definition print_dns :: "dns_records \<Rightarrow> string \<Rightarrow> out_item list \<Rightarrow> out_item list" where
  "print_dns d domain console =
     console @
     [Table (''DNS Records: '' @ domain) [''Type'', ''Values'']
        (map dns_row (filter (\<lambda>kv. fst kv \<noteq> ''SPF'' \<and> fst kv \<noteq> ''DMARC'') d)),
      hint_panel d ''SPF'' ''SPF (TXT)'' ''No SPF record found'',
      hint_panel d ''DMARC'' ''DMARC (TXT)'' (''No DMARC record found at _dmarc.'' @ domain)]"

section \<open>The exporter\<close>

text \<open>
  The dict \<^verbatim>\<open>run\<close> hands to the exporters has four fixed keys. A file is recorded by
  what the program hands to the writing library: the whole result for
  \<^verbatim>\<open>json.dump\<close>, the list of rows for \<^verbatim>\<open>csv.writer\<close>. Serialisation and the file
  system are the libraries'.
\<close>

record recon_result =
  rr_domain :: string
  rr_whois :: dict
  rr_dns :: dns_records
  rr_timestamp_utc :: string

datatype file_content = JsonFile recon_result | CsvFile "pyval list list"

record 's world =
  w_console :: "out_item list"
  w_writes :: "(string \<times> file_content) list"
  w_net :: 's

text \<open>\<^verbatim>\<open>to_json\<close> (lines 128-130).\<close>

definition to_json :: "recon_result \<Rightarrow> string \<Rightarrow> 's world \<Rightarrow> 's world" where
  "to_json data out_path wd = wd\<lparr>w_writes := w_writes wd @ [(out_path, JsonFile data)]\<rparr>"

text \<open>\<^verbatim>\<open>to_csv\<close> (lines 132-160): the rows, then the write.\<close>

definition whois_rows :: "dict \<Rightarrow> py_error + pyval list list" where
  "whois_rows w =
     (if dict_has w ''error''
      then Inr [[PStr ''WHOIS'', PStr ''error'', dict_get w ''error'']]
      else
        (case py_join '';'' (py_or (dict_get w ''name_servers'') (PList [])) of
           Inl e \<Rightarrow> Inl e
         | Inr ns \<Rightarrow>
             (case py_join '';'' (py_or (dict_get w ''status'') (PList [])) of
                Inl e \<Rightarrow> Inl e
              | Inr st \<Rightarrow>
                  Inr [[PStr ''WHOIS'', PStr ''domain'', dict_get w ''domain''],
                       [PStr ''WHOIS'', PStr ''registrar'', dict_get w ''registrar''],
                       [PStr ''WHOIS'', PStr ''creation_date'', dict_get w ''creation_date''],
                       [PStr ''WHOIS'', PStr ''updated_date'', dict_get w ''updated_date''],
                       [PStr ''WHOIS'', PStr ''expiration_date'', dict_get w ''expiration_date''],
                       [PStr ''WHOIS'', PStr ''name_servers'', PStr ns],
                       [PStr ''WHOIS'', PStr ''status'', PStr st]])))"

fun dns_rows :: "dns_records \<Rightarrow> pyval list list" where
  "dns_rows [] = []"
| "dns_rows ((rt, vals) # d) =
     (if vals = [] then [[PStr ''DNS'', PStr rt, PStr ''-'']]
      else map (\<lambda>v. [PStr ''DNS'', PStr rt, PStr v]) vals) @ dns_rows d"

definition csv_rows :: "recon_result \<Rightarrow> py_error + pyval list list" where
  "csv_rows data =
     (case whois_rows (rr_whois data) of
        Inl e \<Rightarrow> Inl e
      | Inr wrows \<Rightarrow>
          Inr ([PStr ''Section'', PStr ''Key'', PStr ''Value''] # wrows @ dns_rows (rr_dns data)))"

definition to_csv :: "recon_result \<Rightarrow> string \<Rightarrow> 's world \<Rightarrow> py_error + 's world" where
  "to_csv data out_path wd =
     (case csv_rows data of
        Inl e \<Rightarrow> Inl e
      | Inr rows \<Rightarrow> Inr (wd\<lparr>w_writes := w_writes wd @ [(out_path, CsvFile rows)]\<rparr>))"

section \<open>The orchestrator\<close>

text \<open>
  What \<^verbatim>\<open>run\<close> takes from outside: the WHOIS client, the resolver, the text of
  objects other than strings, and the two readings of the clock (the banner's
  \<^verbatim>\<open>str(datetime.utcnow())\<close> and the record's \<^verbatim>\<open>datetime.utcnow().isoformat()\<close>).
\<close>

record 's env =
  env_whois :: "string \<Rightarrow> whois_outcome"
  env_resolve :: "'s resolver"
  env_ostr :: "pyval \<Rightarrow> string"
  env_now_banner :: string
  env_now_export :: string

definition print_line :: "string \<Rightarrow> 's world \<Rightarrow> 's world" where
  "print_line s wd = wd\<lparr>w_console := w_console wd @ [Line s]\<rparr>"

definition banner :: "string \<Rightarrow> string \<Rightarrow> out_item" where
  "banner domain now =
     Panel (''[bold]WHOIS & DNS Recon[/bold]'' @ [CHR 0x0A] @ ''Target: [cyan]'' @ domain @
            ''[/cyan]'' @ [CHR 0x0A] @ ''Time: '' @ now @ '' UTC'') ''Recon'' ''blue''"

text \<open>Lines 163-172: everything before the export.\<close>

definition gather :: "'s env \<Rightarrow> string \<Rightarrow> 's world \<Rightarrow> py_error + recon_result \<times> 's world" where
  "gather ev domain wd =
     (case whois_lookup (env_ostr ev) (env_whois ev) domain of
        Inl e \<Rightarrow> Inl e
      | Inr w \<Rightarrow>
          (case gather_dns (env_resolve ev) domain (w_net wd) of
             (Inl e, s') \<Rightarrow> Inl e
           | (Inr d, s') \<Rightarrow>
               (case print_whois (env_ostr ev) w (w_console wd @ [banner domain (env_now_banner ev)]) of
                  Inl e \<Rightarrow> Inl e
                | Inr console \<Rightarrow>
                    Inr (\<lparr>rr_domain = domain, rr_whois = w, rr_dns = d,
                           rr_timestamp_utc = env_now_export ev\<rparr>,
                         wd\<lparr>w_console := print_dns d domain console, w_net := s'\<rparr>))))"

text \<open>Lines 174-182: the export.\<close>

definition export :: "recon_result \<Rightarrow> string option \<Rightarrow> string \<Rightarrow> 's world \<Rightarrow> py_error + 's world" where
  "export out_data out fmt wd =
     (case out of
        None \<Rightarrow> Inr wd
      | Some path \<Rightarrow>
          if path = [] then Inr wd
          else if py_lower fmt = ''json''
          then Inr (print_line (''[green]Saved JSON ->[/green] '' @ path) (to_json out_data path wd))
          else if py_lower fmt = ''csv''
          then (case to_csv out_data path wd of
                  Inl e \<Rightarrow> Inl e
                | Inr wd' \<Rightarrow> Inr (print_line (''[green]Saved CSV  ->[/green] '' @ path) wd'))
          else Inr (print_line ''[red]Unknown format; use json or csv[/red]'' wd))"

text \<open>\<^verbatim>\<open>run\<close> (lines 162-182).\<close>

definition run :: "'s env \<Rightarrow> string \<Rightarrow> string option \<Rightarrow> string \<Rightarrow> 's world \<Rightarrow> py_error + 's world" where
  "run ev domain out fmt wd =
     (case gather ev domain wd of
        Inl e \<Rightarrow> Inl e
      | Inr (out_data, wd') \<Rightarrow> export out_data out fmt wd')"

section \<open>Notions used in the statements\<close>

text \<open>The keys of the record \<^verbatim>\<open>whois_lookup\<close> builds when the client answers.\<close>

definition success_keys :: "string list" where
  "success_keys = [''domain'', ''registrar'', ''creation_date'', ''expiration_date'',
                   ''updated_date'', ''name_servers'', ''status'', ''raw'']"




definition expected_calls :: "string \<Rightarrow> (string \<times> string) list" where
  "expected_calls domain =
     [(domain, ''A''), (domain, ''AAAA''), (domain, ''MX''), (domain, ''TXT''),
      (domain, ''NS''), (domain, ''CNAME''), (''_dmarc.'' @ domain, ''TXT'')]"



text \<open>What a run has written and printed (nothing, when it raised).\<close>

definition files_written :: "py_error + 's world \<Rightarrow> (string \<times> file_content) list" where
  "files_written r = (case r of Inl e \<Rightarrow> [] | Inr wd \<Rightarrow> w_writes wd)"

definition printed :: "py_error + 's world \<Rightarrow> out_item list" where
  "printed r = (case r of Inl e \<Rightarrow> [] | Inr wd \<Rightarrow> w_console wd)"

definition unknown_format_line :: out_item where
  "unknown_format_line = Line ''[red]Unknown format; use json or csv[/red]''"

section \<open>Sample inputs\<close>

definition sample_ostr :: "pyval \<Rightarrow> string" where
  "sample_ostr v = ''<object>''"


definition sample_datetime :: datetime where
  "sample_datetime = \<lparr>dt_year = 1995, dt_month = 8, dt_day = 14,
                       dt_hour = 4, dt_minute = 0, dt_second = 0\<rparr>"

definition sample_entry :: whois_entry where
  "sample_entry =
     \<lparr>we_registrar = Some (PStr ''Example Registrar''),
      we_creation_date = Some (PList [PDate sample_datetime, PStr ''1995-08-14'']),
      we_expiration_date = Some (PStr ''before Aug-2026''),
      we_updated_date = None,
      we_name_servers =
        Some (PList [PStr ''NS1.EXAMPLE.COM.'', PStr ''ns2.example.com'', PStr ''ns1.example.com.'']),
      we_status = Some (PStr ''clientTransferProhibited''),
      we_text = Some (PStr ''Domain Name: EXAMPLE.COM'')\<rparr>"

definition sample_client :: "string \<Rightarrow> whois_outcome" where
  "sample_client domain = WhoisReturned sample_entry"

definition sample_record :: dict where
  "sample_record =
     [(''domain'', PStr ''example.com''),
      (''registrar'', PStr ''Example Registrar''),
      (''creation_date'', PStr ''1995-08-14 04:00:00''),
      (''expiration_date'', PStr ''before Aug-2026''),
      (''updated_date'', PNone),
      (''name_servers'',
         PList [PStr ''NS1.EXAMPLE.COM'', PStr ''ns1.example.com'', PStr ''ns2.example.com'']),
      (''status'', PList [PStr ''clientTransferProhibited'']),
      (''raw'', PStr ''Domain Name: EXAMPLE.COM'')]"

text \<open>
  A resolver that answers every kind of outcome the handlers of \<^verbatim>\<open>dns_query\<close> name and
  counts its calls, and one whose calls raise an exception outside \<^verbatim>\<open>DNSException\<close>.
\<close>

definition sample_resolver :: "nat resolver" where
  "sample_resolver domain rtype n =
     (if domain = ''_dmarc.example.com'' then Answers [''v=DMARC1; p=none'', ''unrelated'']
      else if rtype = ''A'' then Answers [''93.184.216.34'']
      else if rtype = ''AAAA'' then NXDOMAIN
      else if rtype = ''MX'' then NoAnswer
      else if rtype = ''TXT'' then Answers [''v=spf1 include:_spf.example.com ~all'', ''unrelated'']
      else if rtype = ''NS'' then DNSException ''The DNS operation timed out.''
      else Answers [''www.example.net.''], Suc n)"

definition raising_resolver :: "nat resolver" where
  "raising_resolver domain rtype n = (OtherException ''unexpected failure'', Suc n)"

definition sample_dns :: dns_records where
  "sample_dns =
     [(''A'', [''93.184.216.34'']),
      (''AAAA'', [''NXDOMAIN'']),
      (''MX'', []),
      (''TXT'', [''v=spf1 include:_spf.example.com ~all'', ''unrelated'']),
      (''NS'', [''DNS error: The DNS operation timed out.'']),
      (''CNAME'', [''www.example.net.'']),
      (''SPF'', [''v=spf1 include:_spf.example.com ~all'']),
      (''DMARC'', [''v=DMARC1; p=none''])]"

definition sample_result :: recon_result where
  "sample_result =
     \<lparr>rr_domain = ''example.com'', rr_whois = sample_record,
      rr_dns = [(''A'', [''1.2.3.4'']), (''MX'', [])],
      rr_timestamp_utc = ''2024-01-01T00:00:00''\<rparr>"

definition error_result :: recon_result where
  "error_result =
     \<lparr>rr_domain = ''example.com'',
      rr_whois = [(''error'', PStr ''WHOIS failed: no response'')],
      rr_dns = [(''A'', [''93.184.216.34'']), (''AAAA'', [''NXDOMAIN''])],
      rr_timestamp_utc = ''2024-01-01T00:00:00''\<rparr>"

definition empty_world :: "nat world" where
  "empty_world = \<lparr>w_console = [], w_writes = [], w_net = 0\<rparr>"

definition sample_env :: "nat env" where
  "sample_env =
     \<lparr>env_whois = sample_client, env_resolve = sample_resolver, env_ostr = sample_ostr,
      env_now_banner = ''2024-01-01 00:00:00.000000'',
      env_now_export = ''2024-01-01T00:00:00.000001''\<rparr>"

definition sample_gathered :: recon_result where
  "sample_gathered =
     \<lparr>rr_domain = ''example.com'', rr_whois = sample_record, rr_dns = sample_dns,
      rr_timestamp_utc = ''2024-01-01T00:00:00.000001''\<rparr>"

section \<open>Auxiliary lemmas\<close>



lemma strftime_sample: "strftime_ymd_hms sample_datetime = ''1995-08-14 04:00:00''"
  by (simp add: strftime_ymd_hms_def sample_datetime_def digits4_def digits2_def
        digit_char_def char_of_def bit_Suc_0_iff)

lemma strip_each_set:
  "strip_each (filter py_truthy vs) = Inr ss \<Longrightarrow>
   set ss = {py_strip ''.'' s |s. PStr s \<in> set vs \<and> s \<noteq> []}"
proof (induction vs arbitrary: ss)
  case Nil
  then show ?case by simp
next
  case (Cons v vs)
  show ?case
  proof (cases "py_truthy v")
    case False
    then have "\<forall>s. v = PStr s \<longrightarrow> s = []" by auto
    with Cons False show ?thesis by auto
  next
    case True
    with Cons.prems obtain s ss' where v: "v = PStr s" and s: "s \<noteq> []"
      and ss': "strip_each (filter py_truthy vs) = Inr ss'" and ss: "ss = py_strip ''.'' s # ss'"
      by (cases v) (auto split: sum.splits)
    from Cons.IH [OF ss'] v s ss show ?thesis by auto
  qed
qed

lemma py_strip_no_outer:
  "py_strip cs s = [] \<or> (hd (py_strip cs s) \<notin> set cs \<and> last (py_strip cs s) \<notin> set cs)"
proof (cases "py_strip cs s = []")
  case True
  then show ?thesis by simp
next
  case False
  let ?a = "dropWhile (\<lambda>c. c \<in> set cs) s"
  let ?b = "dropWhile (\<lambda>c. c \<in> set cs) (rev ?a)"
  from False have b: "?b \<noteq> []" by (simp add: py_strip_def)
  then have "hd ?b \<notin> set cs" by (metis hd_dropWhile)
  then have l: "last (py_strip cs s) \<notin> set cs"
    using b by (simp add: py_strip_def last_rev)
  have "rev ?a = takeWhile (\<lambda>c. c \<in> set cs) (rev ?a) @ ?b" by simp
  then have "?a = rev ?b @ rev (takeWhile (\<lambda>c. c \<in> set cs) (rev ?a))"
    by (metis rev_append rev_rev_ident)
  then have "hd ?a = hd (rev ?b)" using b by (metis hd_append2 rev_is_Nil_conv)
  moreover have "?a \<noteq> []"
  proof
    assume "?a = []"
    then have "?b = []" by (simp only: rev.simps dropWhile.simps)
    with b show False by simp
  qed
  then have "hd ?a \<notin> set cs" by (metis hd_dropWhile)
  ultimately have "hd (py_strip cs s) \<notin> set cs" by (simp add: py_strip_def)
  with l show ?thesis by simp
qed

lemma name_servers_of_props:
  assumes "name_servers_of v = Inr ns"
  shows "sorted ns \<and> distinct ns \<and>
         set ns = {py_strip ''.'' s |s. PStr s \<in> set (safe_list v) \<and> s \<noteq> []}"
proof -
  from assms obtain ss where ss: "strip_each (filter py_truthy (safe_list v)) = Inr ss"
    and ns: "ns = sort (remdups ss)"
    by (auto simp: name_servers_of_def split: sum.splits)
  from strip_each_set [OF ss] ns show ?thesis by simp
qed

lemma name_servers_sample:
  "name_servers_of
     (PList [PStr ''NS1.EXAMPLE.COM.'', PStr ''ns2.example.com'', PStr ''ns1.example.com.''])
   = Inr [''NS1.EXAMPLE.COM'', ''ns1.example.com'', ''ns2.example.com'']"
  by (simp add: name_servers_of_def py_strip_def)

lemma whois_lookup_sample:
  "whois_lookup sample_ostr sample_client ''example.com'' = Inr sample_record"
  by (simp add: whois_lookup_def sample_client_def sample_entry_def sample_record_def
        name_servers_sample getattr_def fmt_date_def first_of_seq_def strftime_sample)




lemma map_of_dict_set:
  "map_of (dict_set d k v) k' = (if k' = k then Some v else map_of d k')"
  by (induction d) auto


lemma lower_evals:
  "py_lower ''v=spf1 include:_spf.example.com ~all'' = ''v=spf1 include:_spf.example.com ~all''"
  "py_lower ''unrelated'' = ''unrelated''"
  "py_lower ''v=DMARC1; p=none'' = ''v=dmarc1; p=none''"
  by (simp_all add: py_lower_def py_lower_char_def char_of_def bit_Suc_0_iff)

lemma gather_dns_sample:
  "gather_dns sample_resolver ''example.com'' 0 = (Inr sample_dns, 7)"
  by (simp add: gather_dns_def base_types_def dns_query_def sample_resolver_def dict_item_def
        is_spf_def is_dmarc_def py_startswith_def lower_evals sample_dns_def)

lemma gather_dns_logged_sample:
  "gather_dns (logged sample_resolver) ''example.com'' (0, [])
     = (Inr sample_dns, (7, expected_calls ''example.com''))"
  by (simp add: gather_dns_def base_types_def dns_query_def sample_resolver_def dict_item_def
        is_spf_def is_dmarc_def py_startswith_def lower_evals sample_dns_def logged_def
        expected_calls_def)


lemma the_strs_strs: "the_strs (map PStr ss) = Inr ss"
  by (induction ss) simp_all

lemma py_join_strs: "py_join sep (py_or (PList (map PStr ss)) (PList [])) = Inr (join_strs sep ss)"
  by (cases ss) (simp_all add: py_join_def py_or_def the_strs_strs)

lemma dns_rows_concat:
  "dns_rows d =
     concat (map (\<lambda>(rt, vals). if vals = [] then [[PStr ''DNS'', PStr rt, PStr ''-'']]
                              else map (\<lambda>v. [PStr ''DNS'', PStr rt, PStr v]) vals) d)"
  by (induction d) auto

lemma print_whois_sample:
  "\<exists>console. print_whois sample_ostr sample_record cs = Inr console \<and>
             (\<forall>x \<in> set console. x \<in> set cs \<or> (\<forall>s. x \<noteq> Line s))"
  by (simp add: print_whois_def sample_record_def dict_has_def dict_item_def dict_get_def
        py_or_def py_join_def)

lemma gather_sample:
  "\<exists>wd1. gather sample_env ''example.com'' empty_world = Inr (sample_gathered, wd1) \<and>
         w_writes wd1 = [] \<and> w_net wd1 = 7 \<and> (\<forall>s. Line s \<notin> set (w_console wd1))"
proof -
  from print_whois_sample [of "[banner ''example.com'' ''2024-01-01 00:00:00.000000'']"]
  obtain console where
    c: "print_whois sample_ostr sample_record [banner ''example.com'' ''2024-01-01 00:00:00.000000'']
          = Inr console" and
    n: "\<forall>s. Line s \<notin> set console"
    by (auto simp: banner_def)
  from n have "\<forall>s. Line s \<notin> set (print_dns sample_dns ''example.com'' console)"
    by (simp add: print_dns_def hint_panel_def split: option.splits list.splits)
  with c show ?thesis
    by (simp add: gather_def sample_env_def empty_world_def whois_lookup_sample
          gather_dns_sample sample_gathered_def)
qed

lemma lower_formats:
  "py_lower ''json'' = ''json''" "py_lower ''JSON'' = ''json''"
  "py_lower ''csv'' = ''csv''" "py_lower ''xml'' = ''xml''"
  by (simp_all add: py_lower_def py_lower_char_def char_of_def bit_Suc_0_iff)


lemma csv_rows_gathered: "\<exists>rows. csv_rows sample_gathered = Inr rows"
  by (simp add: csv_rows_def whois_rows_def sample_gathered_def sample_record_def dict_has_def
        dict_get_def py_or_def py_join_def)

section \<open>Properties of the WHOIS normalizer\<close>



text \<open>
  C10. A record \<^verbatim>\<open>whois_lookup\<close> returns has exactly one of two shapes: its only key
  is \<^verbatim>\<open>error\<close>, or its keys are the eight keys \<^verbatim>\<open>domain\<close>, \<^verbatim>\<open>registrar\<close>,
  \<^verbatim>\<open>creation_date\<close>, \<^verbatim>\<open>expiration_date\<close>, \<^verbatim>\<open>updated_date\<close>, \<^verbatim>\<open>name_servers\<close>,
  \<^verbatim>\<open>status\<close>, \<^verbatim>\<open>raw\<close> and \<^verbatim>\<open>error\<close> is not among them; in the second shape
  \<^verbatim>\<open>domain\<close> is the input domain and \<^verbatim>\<open>raw\<close> is a string of at most 2000
  characters.
\<close>

theorem whois_lookup_shape:
  assumes "whois_lookup ostr client domain = Inr d"
  shows "((map fst d = [''error'']) \<noteq> (map fst d = success_keys)) \<and>
         (map fst d = success_keys \<longrightarrow>
            \<not> dict_has d ''error'' \<and> dict_get d ''domain'' = PStr domain \<and>
            (\<exists>r. dict_get d ''raw'' = PStr r \<and> length r \<le> 2000))"
  using assms
  by (auto simp: whois_lookup_def success_keys_def dict_has_def dict_get_def
           split: whois_outcome.splits sum.splits)

theorem whois_lookup_shape_witness:
  "whois_lookup sample_ostr sample_client ''example.com'' = Inr sample_record \<and>
   map fst sample_record \<noteq> [''error''] \<and>
   map fst sample_record = success_keys \<and>
   \<not> dict_has sample_record ''error'' \<and>
   dict_get sample_record ''domain'' = PStr ''example.com'' \<and>
   (\<exists>r. dict_get sample_record ''raw'' = PStr r \<and> length r \<le> 2000)"
proof -
  have keys: "map fst sample_record = success_keys"
    by (simp add: sample_record_def success_keys_def)
  from whois_lookup_shape [OF whois_lookup_sample] keys whois_lookup_sample
  show ?thesis by simp
qed




text \<open>
  C4, as the code has it. When \<^verbatim>\<open>whois_lookup\<close> returns a record for an answer of
  the client, its \<^verbatim>\<open>name_servers\<close> field is a list of strings, sorted ascending and
  free of duplicates, holding exactly the non-empty string entries of the client's
  value, each with its leading and trailing dots stripped; letter case and white space
  are left as they are. For the client value
  \<^verbatim>\<open>["NS1.EXAMPLE.COM.", "ns2.example.com", "ns1.example.com."]\<close> the field is
  \<^verbatim>\<open>["NS1.EXAMPLE.COM", "ns1.example.com", "ns2.example.com"]\<close>.
\<close>

theorem name_servers_normalized:
  assumes "client domain = WhoisReturned w"
    and "whois_lookup ostr client domain = Inr d"
  shows "\<exists>ns. dict_get d ''name_servers'' = PList (map PStr ns) \<and>
              sorted ns \<and> distinct ns \<and>
              set ns = {py_strip ''.'' s |s.
                          PStr s \<in> set (safe_list (getattr (we_name_servers w) (PList []))) \<and>
                          s \<noteq> []} \<and>
              (\<forall>n \<in> set ns. n = [] \<or> (hd n \<noteq> CHR ''.'' \<and> last n \<noteq> CHR ''.''))"
proof -
  from assms obtain ns
    where ns: "name_servers_of (getattr (we_name_servers w) (PList [])) = Inr ns"
      and d: "dict_get d ''name_servers'' = PList (map PStr ns)"
    by (auto simp: whois_lookup_def dict_get_def split: sum.splits)
  note props = name_servers_of_props [OF ns]
  have "n = [] \<or> (hd n \<noteq> CHR ''.'' \<and> last n \<noteq> CHR ''.'')" if "n \<in> set ns" for n
  proof -
    from that props obtain s where "n = py_strip ''.'' s" by auto
    with py_strip_no_outer [of "''.''" s] show ?thesis by simp
  qed
  with d props show ?thesis by blast
qed

theorem name_servers_normalized_witness:
  "sample_client ''example.com'' = WhoisReturned sample_entry \<and>
   whois_lookup sample_ostr sample_client ''example.com'' = Inr sample_record \<and>
   (\<exists>ns. dict_get sample_record ''name_servers'' = PList (map PStr ns) \<and>
         sorted ns \<and> distinct ns \<and>
         set ns = {py_strip ''.'' s |s.
                     PStr s \<in> set (safe_list (getattr (we_name_servers sample_entry) (PList []))) \<and>
                     s \<noteq> []} \<and>
         (\<forall>n \<in> set ns. n = [] \<or> (hd n \<noteq> CHR ''.'' \<and> last n \<noteq> CHR ''.'')))"
proof -
  have h: "sample_client ''example.com'' = WhoisReturned sample_entry"
    by (simp add: sample_client_def)
  from name_servers_normalized [OF h whois_lookup_sample] h whois_lookup_sample
  show ?thesis by blast
qed

text \<open>
  C4 as stated fails on its own example: the upper-case entry is kept beside the
  lower-case one, so the field has three entries and not the two claimed.
\<close>

theorem name_servers_example_counterexample:
  "name_servers_of
     (PList [PStr ''NS1.EXAMPLE.COM.'', PStr ''ns2.example.com'', PStr ''ns1.example.com.''])
     = Inr [''NS1.EXAMPLE.COM'', ''ns1.example.com'', ''ns2.example.com''] \<and>
   we_name_servers sample_entry
     = Some (PList [PStr ''NS1.EXAMPLE.COM.'', PStr ''ns2.example.com'', PStr ''ns1.example.com.'']) \<and>
   whois_lookup sample_ostr sample_client ''example.com'' = Inr sample_record \<and>
   dict_get sample_record ''name_servers''
     = PList [PStr ''NS1.EXAMPLE.COM'', PStr ''ns1.example.com'', PStr ''ns2.example.com''] \<and>
   dict_get sample_record ''name_servers''
     \<noteq> PList [PStr ''ns1.example.com'', PStr ''ns2.example.com'']"
  using name_servers_sample whois_lookup_sample
  by (simp add: sample_entry_def sample_record_def dict_get_def)

section \<open>Properties of the DNS gatherer\<close>

text \<open>
  C2, as the code has it. \<^verbatim>\<open>dns_query\<close> returns the answers' texts when the resolver
  answers, exactly \<^verbatim>\<open>["NXDOMAIN"]\<close> when it signals domain-not-found, exactly the empty
  list when it signals no records of the type, and exactly
  \<^verbatim>\<open>["DNS error: " + message]\<close> on any other \<^verbatim>\<open>DNSException\<close>. An exception outside
  \<^verbatim>\<open>DNSException\<close> is not caught: \<^verbatim>\<open>dns_query\<close> raises it. So \<^verbatim>\<open>dns_query\<close> does
  not throw as long as the resolver raises nothing outside \<^verbatim>\<open>DNSException\<close>.
\<close>

theorem dns_query_outcomes:
  "(resolve domain rtype s = (Answers texts, s') \<longrightarrow>
      dns_query resolve domain rtype s = (Inr texts, s')) \<and>
   (resolve domain rtype s = (NXDOMAIN, s') \<longrightarrow>
      dns_query resolve domain rtype s = (Inr [''NXDOMAIN''], s')) \<and>
   (resolve domain rtype s = (NoAnswer, s') \<longrightarrow>
      dns_query resolve domain rtype s = (Inr [], s')) \<and>
   (resolve domain rtype s = (DNSException msg, s') \<longrightarrow>
      dns_query resolve domain rtype s = (Inr [''DNS error: '' @ msg], s')) \<and>
   (resolve domain rtype s = (OtherException msg, s') \<longrightarrow>
      dns_query resolve domain rtype s = (Inl (Uncaught msg), s')) \<and>
   ((\<forall>m. fst (resolve domain rtype s) \<noteq> OtherException m) \<longrightarrow>
      (\<exists>vals. fst (dns_query resolve domain rtype s) = Inr vals))"
proof -
  have "(\<forall>m. fst (resolve domain rtype s) \<noteq> OtherException m) \<longrightarrow>
      (\<exists>vals. fst (dns_query resolve domain rtype s) = Inr vals)"
    by (cases "resolve domain rtype s"; cases "fst (resolve domain rtype s)")
       (auto simp: dns_query_def)
  then show ?thesis by (simp add: dns_query_def)
qed

theorem dns_query_outcomes_witness:
  "dns_query sample_resolver ''example.com'' ''A'' 0 = (Inr [''93.184.216.34''], 1) \<and>
   dns_query sample_resolver ''example.com'' ''AAAA'' 0 = (Inr [''NXDOMAIN''], 1) \<and>
   dns_query sample_resolver ''example.com'' ''MX'' 0 = (Inr [], 1) \<and>
   dns_query sample_resolver ''example.com'' ''NS'' 0
     = (Inr [''DNS error: The DNS operation timed out.''], 1) \<and>
   dns_query raising_resolver ''example.com'' ''A'' 0 = (Inl (Uncaught ''unexpected failure''), 1) \<and>
   (\<exists>vals. fst (dns_query sample_resolver ''example.com'' ''CNAME'' 0) = Inr vals)"
proof -
  note a = dns_query_outcomes [of sample_resolver "''example.com''" "''A''" 0
             "[''93.184.216.34'']" 1 "[]"]
  note b = dns_query_outcomes [of sample_resolver "''example.com''" "''AAAA''" 0 "[]" 1 "[]"]
  note c = dns_query_outcomes [of sample_resolver "''example.com''" "''MX''" 0 "[]" 1 "[]"]
  note d = dns_query_outcomes [of sample_resolver "''example.com''" "''NS''" 0 "[]" 1
             "''The DNS operation timed out.''"]
  note e = dns_query_outcomes [of raising_resolver "''example.com''" "''A''" 0 "[]" 1
             "''unexpected failure''"]
  note f = dns_query_outcomes [of sample_resolver "''example.com''" "''CNAME''" 0 "[]" 1 "[]"]
  from a b c d e f show ?thesis
    by (simp add: sample_resolver_def raising_resolver_def)
qed

text \<open>
  C2 as stated fails where the resolver raises an exception that is not a
  \<^verbatim>\<open>DNSException\<close>: \<^verbatim>\<open>dns_query\<close> throws.
\<close>

theorem dns_query_uncaught_counterexample:
  "fst (dns_query raising_resolver ''example.com'' ''A'' 0) = Inl (Uncaught ''unexpected failure'')"
  by (simp add: dns_query_def raising_resolver_def)





text \<open>
  C5. In every mapping \<^verbatim>\<open>gather_dns\<close> returns, SPF is the TXT values whose lower-cased
  form starts with \<^verbatim>\<open>v=spf1\<close>, in their order, and DMARC is the values of the separate
  TXT query for \<^verbatim>\<open>_dmarc.<domain>\<close> (made after the six base queries) whose lower-cased
  form starts with \<^verbatim>\<open>v=dmarc1\<close>, in their order. For the TXT values
  \<^verbatim>\<open>["v=spf1 include:_spf.example.com ~all", "unrelated"]\<close> SPF is
  \<^verbatim>\<open>["v=spf1 include:_spf.example.com ~all"]\<close>.
\<close>

theorem gather_dns_spf_dmarc:
  assumes "gather_dns resolve domain s = (Inr records, s')"
  shows "\<exists>tvals dvals.
           map_of records ''TXT'' = Some tvals \<and>
           map_of records ''SPF''
             = Some (filter (\<lambda>t. py_startswith (py_lower t) ''v=spf1'') tvals) \<and>
           dns_query resolve (''_dmarc.'' @ domain) ''TXT''
               (snd (query_types resolve domain base_types [] s)) = (Inr dvals, s') \<and>
           map_of records ''DMARC''
             = Some (filter (\<lambda>t. py_startswith (py_lower t) ''v=dmarc1'') dvals)"
proof -
  from assms obtain r1 s1 tvals dvals where
    q: "query_types resolve domain base_types [] s = (Inr r1, s1)" and
    tv: "map_of r1 ''TXT'' = Some tvals" and
    d: "dns_query resolve (''_dmarc.'' @ domain) ''TXT'' s1 = (Inr dvals, s')" and
    r: "records = dict_set (dict_set r1 ''SPF'' (filter is_spf tvals)) ''DMARC'' (filter is_dmarc dvals)"
    by (auto simp: gather_dns_def dict_item_def split: prod.splits sum.splits option.splits)
  have "is_spf = (\<lambda>t. py_startswith (py_lower t) ''v=spf1'')"
    and "is_dmarc = (\<lambda>t. py_startswith (py_lower t) ''v=dmarc1'')"
    by (auto simp: is_spf_def is_dmarc_def)
  with q tv d r show ?thesis
    by (simp add: map_of_dict_set)
qed

theorem gather_dns_spf_dmarc_witness:
  "gather_dns sample_resolver ''example.com'' 0 = (Inr sample_dns, 7) \<and>
   map_of sample_dns ''TXT'' = Some [''v=spf1 include:_spf.example.com ~all'', ''unrelated''] \<and>
   map_of sample_dns ''SPF'' = Some [''v=spf1 include:_spf.example.com ~all''] \<and>
   map_of sample_dns ''DMARC'' = Some [''v=DMARC1; p=none'']"
  using gather_dns_spf_dmarc [OF gather_dns_sample] gather_dns_sample
  by (auto simp: sample_dns_def)

section \<open>Properties of the exporter and of the orchestrator\<close>

text \<open>
  C6. For every result whose WHOIS record has an \<^verbatim>\<open>error\<close> key, or has lists of strings
  as \<^verbatim>\<open>name_servers\<close> and \<^verbatim>\<open>status\<close>, \<^verbatim>\<open>to_csv\<close> writes exactly this row
  sequence: the header row \<^verbatim>\<open>Section,Key,Value\<close>; then the single row
  \<^verbatim>\<open>WHOIS,error,<message>\<close> if the record has the \<^verbatim>\<open>error\<close> key, otherwise seven rows
  prefixed \<^verbatim>\<open>WHOIS\<close> for \<^verbatim>\<open>domain\<close>, \<^verbatim>\<open>registrar\<close>, \<^verbatim>\<open>creation_date\<close>,
  \<^verbatim>\<open>updated_date\<close>, \<^verbatim>\<open>expiration_date\<close>, \<^verbatim>\<open>name_servers\<close> (joined by semicolons)
  and \<^verbatim>\<open>status\<close> (joined by semicolons), in this order; then, for each DNS record type
  in the mapping's order, one row \<^verbatim>\<open>DNS,<type>,-\<close> if it has no value, otherwise one row
  \<^verbatim>\<open>DNS,<type>,<value>\<close> per value. With \<^verbatim>\<open>A=["1.2.3.4"]\<close> and \<^verbatim>\<open>MX=[]\<close> the rows
  \<^verbatim>\<open>DNS,A,1.2.3.4\<close> and \<^verbatim>\<open>DNS,MX,-\<close> are written.
\<close>

theorem to_csv_row_sequence:
  assumes "dict_has (rr_whois data) ''error'' \<or>
           (dict_get (rr_whois data) ''name_servers'' = PList (map PStr ns) \<and>
            dict_get (rr_whois data) ''status'' = PList (map PStr st))"
  shows "to_csv data path wd =
           Inr (wd\<lparr>w_writes := w_writes wd @
             [(path, CsvFile
                ([PStr ''Section'', PStr ''Key'', PStr ''Value''] #
                 (if dict_has (rr_whois data) ''error''
                  then [[PStr ''WHOIS'', PStr ''error'', dict_get (rr_whois data) ''error'']]
                  else [[PStr ''WHOIS'', PStr ''domain'', dict_get (rr_whois data) ''domain''],
                        [PStr ''WHOIS'', PStr ''registrar'', dict_get (rr_whois data) ''registrar''],
                        [PStr ''WHOIS'', PStr ''creation_date'', dict_get (rr_whois data) ''creation_date''],
                        [PStr ''WHOIS'', PStr ''updated_date'', dict_get (rr_whois data) ''updated_date''],
                        [PStr ''WHOIS'', PStr ''expiration_date'', dict_get (rr_whois data) ''expiration_date''],
                        [PStr ''WHOIS'', PStr ''name_servers'', PStr (join_strs '';'' ns)],
                        [PStr ''WHOIS'', PStr ''status'', PStr (join_strs '';'' st)]]) @
                 concat (map (\<lambda>(rt, vals).
                                if vals = [] then [[PStr ''DNS'', PStr rt, PStr ''-'']]
                                else map (\<lambda>v. [PStr ''DNS'', PStr rt, PStr v]) vals)
                             (rr_dns data))))]\<rparr>)"
proof (cases "dict_has (rr_whois data) ''error''")
  case True
  then show ?thesis
    by (simp add: to_csv_def csv_rows_def whois_rows_def dns_rows_concat)
next
  case False
  with assms have "dict_get (rr_whois data) ''name_servers'' = PList (map PStr ns)"
    and "dict_get (rr_whois data) ''status'' = PList (map PStr st)" by auto
  with False show ?thesis
    by (simp add: to_csv_def csv_rows_def whois_rows_def dns_rows_concat py_join_strs)
qed

theorem to_csv_row_sequence_witness:
  "to_csv sample_result ''out.csv'' empty_world =
     Inr \<lparr>w_console = [],
          w_writes =
            [(''out.csv'', CsvFile
               [[PStr ''Section'', PStr ''Key'', PStr ''Value''],
                [PStr ''WHOIS'', PStr ''domain'', PStr ''example.com''],
                [PStr ''WHOIS'', PStr ''registrar'', PStr ''Example Registrar''],
                [PStr ''WHOIS'', PStr ''creation_date'', PStr ''1995-08-14 04:00:00''],
                [PStr ''WHOIS'', PStr ''updated_date'', PNone],
                [PStr ''WHOIS'', PStr ''expiration_date'', PStr ''before Aug-2026''],
                [PStr ''WHOIS'', PStr ''name_servers'',
                   PStr ''NS1.EXAMPLE.COM;ns1.example.com;ns2.example.com''],
                [PStr ''WHOIS'', PStr ''status'', PStr ''clientTransferProhibited''],
                [PStr ''DNS'', PStr ''A'', PStr ''1.2.3.4''],
                [PStr ''DNS'', PStr ''MX'', PStr ''-'']])],
          w_net = 0\<rparr> \<and>
   to_csv error_result ''out.csv'' empty_world =
     Inr \<lparr>w_console = [],
          w_writes =
            [(''out.csv'', CsvFile
               [[PStr ''Section'', PStr ''Key'', PStr ''Value''],
                [PStr ''WHOIS'', PStr ''error'', PStr ''WHOIS failed: no response''],
                [PStr ''DNS'', PStr ''A'', PStr ''93.184.216.34''],
                [PStr ''DNS'', PStr ''AAAA'', PStr ''NXDOMAIN'']])],
          w_net = 0\<rparr>"
proof -
  have a: "dict_has (rr_whois sample_result) ''error'' \<or>
           (dict_get (rr_whois sample_result) ''name_servers''
              = PList (map PStr [''NS1.EXAMPLE.COM'', ''ns1.example.com'', ''ns2.example.com'']) \<and>
            dict_get (rr_whois sample_result) ''status''
              = PList (map PStr [''clientTransferProhibited'']))"
    by (simp add: sample_result_def sample_record_def dict_get_def)
  have b: "dict_has (rr_whois error_result) ''error'' \<or>
           (dict_get (rr_whois error_result) ''name_servers'' = PList (map PStr []) \<and>
            dict_get (rr_whois error_result) ''status'' = PList (map PStr []))"
    by (simp add: error_result_def dict_has_def)
  from to_csv_row_sequence [OF a, of "''out.csv''" empty_world]
       to_csv_row_sequence [OF b, of "''out.csv''" empty_world]
  show ?thesis
    by (simp add: sample_result_def error_result_def sample_record_def empty_world_def
          dict_get_def dict_has_def)
qed

text \<open>
  C8, as the code has it. When the steps before the export complete and a non-empty
  output path is given, \<^verbatim>\<open>run\<close> dispatches on the lower-cased format value: to the
  JSON exporter when it is \<^verbatim>\<open>json\<close>, to the CSV exporter when it is \<^verbatim>\<open>csv\<close>; for
  every other value it prints the error message, writes no file and returns normally.
  Without a path, or with the empty path, nothing is exported and nothing more is printed.
\<close>

theorem run_export_dispatch:
  assumes "gather ev domain wd = Inr (data, wd1)" and "path \<noteq> []"
  shows "run ev domain None fmt wd = Inr wd1 \<and>
         run ev domain (Some []) fmt wd = Inr wd1 \<and>
         (py_lower fmt = ''json'' \<longrightarrow>
            run ev domain (Some path) fmt wd =
              Inr (wd1\<lparr>w_writes := w_writes wd1 @ [(path, JsonFile data)],
                       w_console := w_console wd1 @
                         [Line (''[green]Saved JSON ->[/green] '' @ path)]\<rparr>)) \<and>
         (py_lower fmt = ''csv'' \<longrightarrow>
            run ev domain (Some path) fmt wd =
              (case to_csv data path wd1 of
                 Inl e \<Rightarrow> Inl e
               | Inr wd2 \<Rightarrow>
                   Inr (wd2\<lparr>w_console := w_console wd2 @
                              [Line (''[green]Saved CSV  ->[/green] '' @ path)]\<rparr>))) \<and>
         (py_lower fmt \<noteq> ''json'' \<and> py_lower fmt \<noteq> ''csv'' \<longrightarrow>
            run ev domain (Some path) fmt wd =
              Inr (wd1\<lparr>w_console := w_console wd1 @ [unknown_format_line]\<rparr>))"
  using assms
  by (simp add: run_def export_def to_json_def print_line_def unknown_format_line_def
        split: sum.splits)

theorem run_export_dispatch_witness:
  "\<exists>wd1 rows.
     gather sample_env ''example.com'' empty_world = Inr (sample_gathered, wd1) \<and>
     run sample_env ''example.com'' (Some ''out.json'') ''json'' empty_world =
       Inr (wd1\<lparr>w_writes := w_writes wd1 @ [(''out.json'', JsonFile sample_gathered)],
                w_console := w_console wd1 @
                  [Line ''[green]Saved JSON ->[/green] out.json'']\<rparr>) \<and>
     run sample_env ''example.com'' (Some ''out.csv'') ''csv'' empty_world =
       Inr (wd1\<lparr>w_writes := w_writes wd1 @ [(''out.csv'', CsvFile rows)],
                w_console := w_console wd1 @
                  [Line ''[green]Saved CSV  ->[/green] out.csv'']\<rparr>) \<and>
     run sample_env ''example.com'' (Some ''out.xml'') ''xml'' empty_world =
       Inr (wd1\<lparr>w_console := w_console wd1 @ [unknown_format_line]\<rparr>)"
proof -
  from gather_sample obtain wd1
    where g: "gather sample_env ''example.com'' empty_world = Inr (sample_gathered, wd1)"
    by blast
  from csv_rows_gathered obtain rows where r: "csv_rows sample_gathered = Inr rows" by blast
  have p: "''out.json'' \<noteq> []" "''out.csv'' \<noteq> []" "''out.xml'' \<noteq> []" by simp_all
  from run_export_dispatch [OF g p(1), of "''json''"]
       run_export_dispatch [OF g p(2), of "''csv''"]
       run_export_dispatch [OF g p(3), of "''xml''"] g r
  show ?thesis by (auto simp: lower_formats to_csv_def)
qed

text \<open>
  C8 as stated fails on the format value \<^verbatim>\<open>JSON\<close>: it is neither \<^verbatim>\<open>json\<close> nor
  \<^verbatim>\<open>csv\<close>, yet \<^verbatim>\<open>run\<close> writes the JSON file and prints no error message.
\<close>

theorem run_upper_case_format_counterexample:
  "''JSON'' \<noteq> ''json'' \<and> ''JSON'' \<noteq> ''csv'' \<and>
   files_written (run sample_env ''example.com'' (Some ''out.json'') ''JSON'' empty_world)
     = [(''out.json'', JsonFile sample_gathered)] \<and>
   unknown_format_line
     \<notin> set (printed (run sample_env ''example.com'' (Some ''out.json'') ''JSON'' empty_world))"
proof -
  from gather_sample obtain wd1
    where g: "gather sample_env ''example.com'' empty_world = Inr (sample_gathered, wd1)"
      and w: "w_writes wd1 = []" and l: "\<forall>s. Line s \<notin> set (w_console wd1)"
    by blast
  have "run sample_env ''example.com'' (Some ''out.json'') ''JSON'' empty_world =
          Inr (wd1\<lparr>w_writes := w_writes wd1 @ [(''out.json'', JsonFile sample_gathered)],
                   w_console := w_console wd1 @
                     [Line ''[green]Saved JSON ->[/green] out.json'']\<rparr>)"
    using g by (simp add: run_def export_def to_json_def print_line_def lower_formats)
  with w l show ?thesis
    by (simp add: files_written_def printed_def unknown_format_line_def)
qed

end
